theory Spec2Isabelle
  imports Complex_Main "HOL-Library.Word" "HOL-Library.Log_Nat" "HOL-Library.Monad_Syntax"
begin

unbundle bit_operations_syntax

section \<open>Machine types\<close>

type_synonym u8 = "8 word"
type_synonym u16 = "16 word"
type_synonym u32 = "32 word"
type_synonym s8 = "8 word" \<comment> \<open>\<open>int8_t\<close>: read with \<open>sint\<close>\<close>

subsection \<open>The C type \<open>float\<close>, idealised\<close>

text \<open>
  A \<open>float\<close> is a finite number, one of the two infinities, or not-a-number.
  The operations follow IEEE 754 on the special values, so that a division by
  zero gives an infinity or a NaN as it does on the target, and they are exact on
  finite values: rounding to 24 (or, for the \<open>double\<close> intermediates, 53) bits,
  overflow and the sign of zero are not modelled. Zero counts as \<open>+0\<close>.
  These are the numbers of the statements that compare the shape of a computation
  with a formula; the statements about the values that come out are made in the
  rounded arithmetic of the next subsection.
\<close>

datatype cfloat = Fin real | PInf | NInf | NaN

fun signed_inf :: "real \<Rightarrow> cfloat" where
  "signed_inf s = (if s = 0 then NaN else if 0 < s then PInf else NInf)"

fun fsgn :: "cfloat \<Rightarrow> real" where
  "fsgn (Fin a) = sgn a"
| "fsgn PInf = 1"
| "fsgn NInf = - 1"
| "fsgn NaN = 0"

fun fneg :: "cfloat \<Rightarrow> cfloat" where
  "fneg (Fin a) = Fin (- a)"
| "fneg PInf = NInf"
| "fneg NInf = PInf"
| "fneg NaN = NaN"

fun fadd :: "cfloat \<Rightarrow> cfloat \<Rightarrow> cfloat" where
  "fadd (Fin a) (Fin b) = Fin (a + b)"
| "fadd NaN y = NaN"
| "fadd x NaN = NaN"
| "fadd PInf NInf = NaN"
| "fadd NInf PInf = NaN"
| "fadd PInf y = PInf"
| "fadd x PInf = PInf"
| "fadd NInf y = NInf"
| "fadd x NInf = NInf"

definition fsub :: "cfloat \<Rightarrow> cfloat \<Rightarrow> cfloat" where
  "fsub x y = fadd x (fneg y)"

fun fmul :: "cfloat \<Rightarrow> cfloat \<Rightarrow> cfloat" where
  "fmul (Fin a) (Fin b) = Fin (a * b)"
| "fmul NaN y = NaN"
| "fmul x NaN = NaN"
| "fmul x y = signed_inf (fsgn x * fsgn y)"
  \<comment> \<open>an infinity times zero is NaN, times anything else an infinity\<close>

fun fdiv :: "cfloat \<Rightarrow> cfloat \<Rightarrow> cfloat" where
  "fdiv (Fin a) (Fin b) = (if b = 0 then signed_inf a else Fin (a / b))"
| "fdiv NaN y = NaN"
| "fdiv x NaN = NaN"
| "fdiv (Fin a) y = Fin 0"
| "fdiv x (Fin b) = (if b < 0 then fneg x else x)"
| "fdiv x y = NaN"
  \<comment> \<open>finite by infinite is zero, infinite by finite infinite, infinite by infinite NaN\<close>

text \<open>Conversions from the integer types (each value is exactly representable).\<close>

definition float_of_u8 :: "u8 \<Rightarrow> cfloat" where
  "float_of_u8 w = Fin (real (unat w))"

definition float_of_u16 :: "u16 \<Rightarrow> cfloat" where
  "float_of_u16 w = Fin (real (unat w))"

definition float_of_s8 :: "s8 \<Rightarrow> cfloat" where
  "float_of_s8 w = Fin (real_of_int (sint w))"

subsection \<open>The C types \<open>float\<close> and \<open>double\<close>, bit for bit\<close>

text \<open>
  The arithmetic of the target: \<open>float\<close> is IEEE 754 binary32 and \<open>double\<close> is
  binary64, every operation is rounded to nearest, ties to even, in the type that C
  gives it (an operation with a \<open>double\<close> constant such as \<open>4095.0\<close> is done in
  \<open>double\<close>, and its result rounded again when it is stored in a \<open>float\<close>), with
  gradual underflow, overflow to infinity and signed zeros. No operation is fused
  with another, and none is done in a wider format than its type.
\<close>

text \<open>
  The position of the leading bit of a positive number:
  \<open>2 powi ilog2 x \<le> x < 2 powi (ilog2 x + 1)\<close>.
\<close>

definition ilog2 :: "real \<Rightarrow> int" where
  "ilog2 x = (if 1 \<le> x then bitlen \<lfloor>x\<rfloor> - 1 else - bitlen (\<lceil>1 / x\<rceil> - 1))"

text \<open>The nearest integer, the even one of two that are equally near.\<close>

definition round_even :: "real \<Rightarrow> int" where
  "round_even y =
     (let f = \<lfloor>y\<rfloor>; d = y - of_int f
      in if d < 1/2 then f else if 1/2 < d then f + 1 else if even f then f else f + 1)"

text \<open>
  A value of a binary format: a number (\<open>Num 0\<close> is \<open>+0\<close>), \<open>-0\<close>, an infinity or
  not-a-number. A format has \<open>precision\<close> significant bits and exponents from \<open>emin\<close> to
  \<open>emax\<close>.
\<close>

datatype ieee = Num real | MinusZero | PlusInf | MinusInf | Nan

record format =
  precision :: nat
  emin :: int
  emax :: int

definition binary32 :: format where
  "binary32 = \<lparr>precision = 24, emin = - 126, emax = 127\<rparr>"

definition binary64 :: format where
  "binary64 = \<lparr>precision = 53, emin = - 1022, emax = 1023\<rparr>"

text \<open>
  Rounding: \<open>quantum f x\<close> is the distance of the numbers of the format \<open>f\<close> around
  \<open>x\<close> (that of the least exponent below it: gradual underflow), \<open>nearest f x\<close> the
  multiple of it nearest to \<open>x\<close>. A result of magnitude \<open>2 powi (emax + 1)\<close> or more
  is an infinity, and a result rounded to zero keeps the sign.
\<close>

definition quantum :: "format \<Rightarrow> real \<Rightarrow> real" where
  "quantum f x = 2 powi (max (ilog2 \<bar>x\<bar>) (emin f) - int (precision f) + 1)"

definition nearest :: "format \<Rightarrow> real \<Rightarrow> real" where
  "nearest f x = of_int (round_even (x / quantum f x)) * quantum f x"

definition round_to :: "format \<Rightarrow> real \<Rightarrow> ieee" where
  "round_to f x =
     (if x = 0 then Num 0
      else if 2 powi (emax f + 1) \<le> \<bar>nearest f x\<bar> then (if 0 < x then PlusInf else MinusInf)
      else if nearest f x = 0 then (if 0 < x then Num 0 else MinusZero)
      else Num (nearest f x))"


text \<open>
  The operations of IEEE 754: on numbers, the exact result rounded; an exact zero sum
  is \<open>+0\<close> unless both terms are negative zeros; a product or quotient of zero has the
  sign of its operands; the invalid operations give NaN.
\<close>

fun is_finite :: "ieee \<Rightarrow> bool" where
  "is_finite (Num x) = True"
| "is_finite MinusZero = True"
| "is_finite v = False"

fun is_infinite :: "ieee \<Rightarrow> bool" where
  "is_infinite PlusInf = True"
| "is_infinite MinusInf = True"
| "is_infinite v = False"

fun valof :: "ieee \<Rightarrow> real" where
  "valof (Num x) = x"
| "valof v = 0"

fun sign_bit :: "ieee \<Rightarrow> bool" where
  "sign_bit (Num x) = (x < 0)"
| "sign_bit MinusZero = True"
| "sign_bit MinusInf = True"
| "sign_bit v = False"

definition zero_of :: "bool \<Rightarrow> ieee" where
  "zero_of s = (if s then MinusZero else Num 0)"

definition inf_of :: "bool \<Rightarrow> ieee" where
  "inf_of s = (if s then MinusInf else PlusInf)"

fun fp_neg :: "ieee \<Rightarrow> ieee" where
  "fp_neg (Num x) = (if x = 0 then MinusZero else Num (- x))"
| "fp_neg MinusZero = Num 0"
| "fp_neg PlusInf = MinusInf"
| "fp_neg MinusInf = PlusInf"
| "fp_neg Nan = Nan"

definition fp_add :: "format \<Rightarrow> ieee \<Rightarrow> ieee \<Rightarrow> ieee" where
  "fp_add f x y =
     (if x = Nan \<or> y = Nan then Nan
      else if is_infinite x then (if is_infinite y \<and> y \<noteq> x then Nan else x)
      else if is_infinite y then y
      else if valof x + valof y = 0 then zero_of (sign_bit x \<and> sign_bit y)
      else round_to f (valof x + valof y))"

definition fp_sub :: "format \<Rightarrow> ieee \<Rightarrow> ieee \<Rightarrow> ieee" where
  "fp_sub f x y = fp_add f x (fp_neg y)"

definition fp_mul :: "format \<Rightarrow> ieee \<Rightarrow> ieee \<Rightarrow> ieee" where
  "fp_mul f x y =
     (if x = Nan \<or> y = Nan then Nan
      else if is_infinite x \<or> is_infinite y then
        (if valof x = 0 \<and> is_finite x \<or> valof y = 0 \<and> is_finite y then Nan
         else inf_of (sign_bit x \<noteq> sign_bit y))
      else if valof x * valof y = 0 then zero_of (sign_bit x \<noteq> sign_bit y)
      else round_to f (valof x * valof y))"

definition fp_div :: "format \<Rightarrow> ieee \<Rightarrow> ieee \<Rightarrow> ieee" where
  "fp_div f x y =
     (if x = Nan \<or> y = Nan then Nan
      else if is_infinite x then (if is_infinite y then Nan else inf_of (sign_bit x \<noteq> sign_bit y))
      else if is_infinite y then zero_of (sign_bit x \<noteq> sign_bit y)
      else if valof y = 0 then (if valof x = 0 then Nan else inf_of (sign_bit x \<noteq> sign_bit y))
      else if valof x = 0 then zero_of (sign_bit x \<noteq> sign_bit y)
      else round_to f (valof x / valof y))"




text \<open>
  The conversions: a \<open>double\<close> stored in a \<open>float\<close> is rounded (a \<open>float\<close> read as a
  \<open>double\<close> is the same value), and an integer becomes the nearest \<open>float\<close>.
\<close>

definition to_float :: "ieee \<Rightarrow> ieee" where
  "to_float v = (case v of Num x \<Rightarrow> round_to binary32 x | _ \<Rightarrow> v)"

definition float_of_int :: "int \<Rightarrow> ieee" where
  "float_of_int n = round_to binary32 (of_int n)"

section \<open>The object\<close>

text \<open>
  Modelled from the spec: the class declaration (\<open>TemperatureZero.h\<close>) is not among
  the sources. The members are those that \<open>TemperatureZero.cpp\<close> assigns, with the
  types of section 3 of the specification: floats for temperatures, reference
  voltages and compensated voltages, integers for the two factory ADC readings;
  \<open>_averaging\<close> has the type of the parameter of \<open>setAveraging\<close>. The type \<open>'f\<close> of
  the float members is \<open>cfloat\<close> in the idealised computations and \<open>ieee\<close> in the
  rounded ones.
\<close>

record 'f TemperatureZero =
  averaging :: u8
  isUserCalEnabled :: bool
  userCalGainCorrection :: 'f
  userCalOffsetCorrection :: 'f
  roomTemperature :: 'f
  roomReading :: u16
  hotTemperature :: 'f
  hotReading :: u16
  roomInt1vRef :: 'f
  hotInt1vRef :: 'f
  roomVoltageCompensated :: 'f
  hotVoltageCompensated :: 'f

definition setAveraging :: "u8 \<Rightarrow> 'f TemperatureZero \<Rightarrow> 'f TemperatureZero" where
  "setAveraging a st = st\<lparr>averaging := a\<rparr>"

subsection \<open>Factory calibration\<close>

definition INT1V_DIVIDER_1000 :: cfloat where
  "INT1V_DIVIDER_1000 = Fin 1000"

definition ADC_12BIT_FULL_SCALE_VALUE_FLOAT :: cfloat where
  "ADC_12BIT_FULL_SCALE_VALUE_FLOAT = Fin 4095"

text \<open>Extra safe decimal to fractional conversion.\<close>

definition convert_dec_to_frac :: "u8 \<Rightarrow> cfloat" where
  "convert_dec_to_frac val =
     (if val < 10 then fdiv (float_of_u8 val) (Fin 10)
      else if val < 100 then fdiv (float_of_u8 val) (Fin 100)
      else fdiv (float_of_u8 val) (Fin 1000))"

text \<open>
  The fuse words. The addresses, masks and positions (\<open>FUSES_..._ADDR\<close>,
  \<open>FUSES_..._Msk\<close>, \<open>FUSES_..._Pos\<close>) come from the device header, which is not part
  of the repository: they are parameters. The memory is read as 32-bit words.
\<close>

datatype fuse =
  ROOM_TEMP_VAL_INT | ROOM_TEMP_VAL_DEC | HOT_TEMP_VAL_INT | HOT_TEMP_VAL_DEC
| ROOM_ADC_VAL | HOT_ADC_VAL | ROOM_INT1V_VAL | HOT_INT1V_VAL

record fuse_defs =
  FUSES_ADDR :: "fuse \<Rightarrow> u32"
  FUSES_Msk :: "fuse \<Rightarrow> u32"
  FUSES_Pos :: "fuse \<Rightarrow> nat"

type_synonym memory = "u32 \<Rightarrow> u32"

definition read_fuse :: "fuse_defs \<Rightarrow> memory \<Rightarrow> fuse \<Rightarrow> u32" where
  "read_fuse F mem f = drop_bit (FUSES_Pos F f) (mem (FUSES_ADDR F f) AND FUSES_Msk F f)"

definition getFactoryCalibration ::
  "fuse_defs \<Rightarrow> memory \<Rightarrow> cfloat TemperatureZero \<Rightarrow> cfloat TemperatureZero" where
  "getFactoryCalibration F mem st0 =
     (let roomInteger = (ucast (read_fuse F mem ROOM_TEMP_VAL_INT) :: u8);
          roomDecimal = (ucast (read_fuse F mem ROOM_TEMP_VAL_DEC) :: u8);
          st = st0\<lparr>roomTemperature := fadd (float_of_u8 roomInteger) (convert_dec_to_frac roomDecimal)\<rparr>;
          st = st\<lparr>roomReading := ucast (read_fuse F mem ROOM_ADC_VAL)\<rparr>;
          hotInteger = (ucast (read_fuse F mem HOT_TEMP_VAL_INT) :: u8);
          hotDecimal = (ucast (read_fuse F mem HOT_TEMP_VAL_DEC) :: u8);
          st = st\<lparr>hotTemperature := fadd (float_of_u8 hotInteger) (convert_dec_to_frac hotDecimal)\<rparr>;
          st = st\<lparr>hotReading := ucast (read_fuse F mem HOT_ADC_VAL)\<rparr>;
          roomInt1vRefRaw = (ucast (read_fuse F mem ROOM_INT1V_VAL) :: s8);
          hotInt1vRefRaw = (ucast (read_fuse F mem HOT_INT1V_VAL) :: s8);
          st = st\<lparr>roomInt1vRef := fsub (Fin 1) (fdiv (float_of_s8 roomInt1vRefRaw) INT1V_DIVIDER_1000)\<rparr>;
          st = st\<lparr>hotInt1vRef := fsub (Fin 1) (fdiv (float_of_s8 hotInt1vRefRaw) INT1V_DIVIDER_1000)\<rparr>;
          st = st\<lparr>roomVoltageCompensated :=
                 fdiv (fmul (float_of_u16 (roomReading st)) (roomInt1vRef st)) ADC_12BIT_FULL_SCALE_VALUE_FLOAT\<rparr>;
          st = st\<lparr>hotVoltageCompensated :=
                 fdiv (fmul (float_of_u16 (hotReading st)) (hotInt1vRef st)) ADC_12BIT_FULL_SCALE_VALUE_FLOAT\<rparr>
      in st)"

subsection \<open>User calibration\<close>

definition setUserCalibration :: "'f \<Rightarrow> 'f \<Rightarrow> bool \<Rightarrow> 'f TemperatureZero \<Rightarrow> 'f TemperatureZero" where
  "setUserCalibration userCalGainCorrection' userCalOffsetCorrection' isEnabled st0 =
     (let st = st0\<lparr>userCalOffsetCorrection := userCalOffsetCorrection'\<rparr>;
          st = st\<lparr>userCalGainCorrection := userCalGainCorrection'\<rparr>
      in st\<lparr>isUserCalEnabled := isEnabled\<rparr>)"

definition enableUserCalibration :: "bool \<Rightarrow> 'f TemperatureZero \<Rightarrow> 'f TemperatureZero" where
  "enableUserCalibration isEnabled st = st\<lparr>isUserCalEnabled := isEnabled\<rparr>"

subsection \<open>The converter\<close>

text \<open>
  Convert raw 12 bit adc reading into temperature float. The local variables of
  \<open>raw2temp\<close> come first, each as a function of the object and the reading, under the
  name (and spelling) it has in the source.
\<close>

definition meaurementVoltage :: "u16 \<Rightarrow> cfloat" where
  "meaurementVoltage adcReading = fdiv (float_of_u16 adcReading) ADC_12BIT_FULL_SCALE_VALUE_FLOAT"

definition coarse_temp :: "cfloat TemperatureZero \<Rightarrow> u16 \<Rightarrow> cfloat" where
  "coarse_temp st adcReading =
     fadd (roomTemperature st)
       (fmul (fdiv (fsub (hotTemperature st) (roomTemperature st))
                   (fsub (hotVoltageCompensated st) (roomVoltageCompensated st)))
             (fsub (meaurementVoltage adcReading) (roomVoltageCompensated st)))"

definition ref1VAtMeasurement :: "cfloat TemperatureZero \<Rightarrow> u16 \<Rightarrow> cfloat" where
  "ref1VAtMeasurement st adcReading =
     fadd (roomInt1vRef st)
       (fdiv (fmul (fsub (hotInt1vRef st) (roomInt1vRef st))
                   (fsub (coarse_temp st adcReading) (roomTemperature st)))
             (fsub (hotTemperature st) (roomTemperature st)))"

definition measureVoltageCompensated :: "cfloat TemperatureZero \<Rightarrow> u16 \<Rightarrow> cfloat" where
  "measureVoltageCompensated st adcReading =
     fdiv (fmul (float_of_u16 adcReading) (ref1VAtMeasurement st adcReading))
          ADC_12BIT_FULL_SCALE_VALUE_FLOAT"

definition refinedTemp :: "cfloat TemperatureZero \<Rightarrow> u16 \<Rightarrow> cfloat" where
  "refinedTemp st adcReading =
     fadd (roomTemperature st)
       (fmul (fdiv (fsub (hotTemperature st) (roomTemperature st))
                   (fsub (hotVoltageCompensated st) (roomVoltageCompensated st)))
             (fsub (measureVoltageCompensated st adcReading) (roomVoltageCompensated st)))"

definition user_correction :: "cfloat TemperatureZero \<Rightarrow> cfloat \<Rightarrow> cfloat" where
  \<comment> \<open>the right-hand side of line 228, at a refined temperature \<open>t\<close>\<close>
  "user_correction st t = fmul (fsub t (userCalOffsetCorrection st)) (userCalGainCorrection st)"

text \<open>
  The member function is not declared \<open>const\<close>: it returns the object along with the
  result. (\<open>TZ_DEBUG\<close> is undefined, so nothing is printed.)
\<close>

definition raw2temp :: "cfloat TemperatureZero \<Rightarrow> u16 \<Rightarrow> cfloat \<times> cfloat TemperatureZero" where
  "raw2temp st adcReading =
     (let result = refinedTemp st adcReading;
          result =
            (if isUserCalEnabled st then user_correction st (refinedTemp st adcReading)
             else result)
      in (result, st))"

section \<open>The float computations in binary32\<close>

text \<open>
  The functions that compute with floats, once more, each operation now rounded as
  on the target. The names are those of the source with the suffix \<open>_f32\<close>.
\<close>

definition f32_of_u8 :: "u8 \<Rightarrow> ieee" where
  "f32_of_u8 w = float_of_int (uint w)"

definition f32_of_u16 :: "u16 \<Rightarrow> ieee" where
  "f32_of_u16 w = float_of_int (uint w)"

definition f32_of_s8 :: "s8 \<Rightarrow> ieee" where
  "f32_of_s8 w = float_of_int (sint w)"

text \<open>
  Extra safe decimal to fractional conversion: \<open>(float)val/10.0\<close> is a division in
  \<open>double\<close>, rounded to \<open>float\<close> on return.
\<close>

definition convert_dec_to_frac_f32 :: "u8 \<Rightarrow> ieee" where
  "convert_dec_to_frac_f32 val =
     (if val < 10 then to_float (fp_div binary64 (f32_of_u8 val) (Num 10))
      else if val < 100 then to_float (fp_div binary64 (f32_of_u8 val) (Num 100))
      else to_float (fp_div binary64 (f32_of_u8 val) (Num 1000)))"

text \<open>
  The temperatures are sums in \<open>float\<close>; the references are computed in \<open>double\<close>
  (\<open>INT1V_DIVIDER_1000\<close> is \<open>1000.0\<close>) and stored in a \<open>float\<close>; the compensated voltages
  are a product in \<open>float\<close> divided in \<open>double\<close> by \<open>4095.0\<close>.
\<close>

definition getFactoryCalibration_f32 ::
  "fuse_defs \<Rightarrow> memory \<Rightarrow> ieee TemperatureZero \<Rightarrow> ieee TemperatureZero" where
  "getFactoryCalibration_f32 F mem st0 =
     (let roomInteger = (ucast (read_fuse F mem ROOM_TEMP_VAL_INT) :: u8);
          roomDecimal = (ucast (read_fuse F mem ROOM_TEMP_VAL_DEC) :: u8);
          st = st0\<lparr>roomTemperature :=
                 fp_add binary32 (f32_of_u8 roomInteger) (convert_dec_to_frac_f32 roomDecimal)\<rparr>;
          st = st\<lparr>roomReading := ucast (read_fuse F mem ROOM_ADC_VAL)\<rparr>;
          hotInteger = (ucast (read_fuse F mem HOT_TEMP_VAL_INT) :: u8);
          hotDecimal = (ucast (read_fuse F mem HOT_TEMP_VAL_DEC) :: u8);
          st = st\<lparr>hotTemperature :=
                 fp_add binary32 (f32_of_u8 hotInteger) (convert_dec_to_frac_f32 hotDecimal)\<rparr>;
          st = st\<lparr>hotReading := ucast (read_fuse F mem HOT_ADC_VAL)\<rparr>;
          roomInt1vRefRaw = (ucast (read_fuse F mem ROOM_INT1V_VAL) :: s8);
          hotInt1vRefRaw = (ucast (read_fuse F mem HOT_INT1V_VAL) :: s8);
          st = st\<lparr>roomInt1vRef :=
                 to_float (fp_sub binary64 (Num 1) (fp_div binary64 (f32_of_s8 roomInt1vRefRaw) (Num 1000)))\<rparr>;
          st = st\<lparr>hotInt1vRef :=
                 to_float (fp_sub binary64 (Num 1) (fp_div binary64 (f32_of_s8 hotInt1vRefRaw) (Num 1000)))\<rparr>;
          st = st\<lparr>roomVoltageCompensated :=
                 to_float (fp_div binary64 (fp_mul binary32 (f32_of_u16 (roomReading st)) (roomInt1vRef st))
                             (Num 4095))\<rparr>;
          st = st\<lparr>hotVoltageCompensated :=
                 to_float (fp_div binary64 (fp_mul binary32 (f32_of_u16 (hotReading st)) (hotInt1vRef st))
                             (Num 4095))\<rparr>
      in st)"



definition slope_f32 :: "ieee TemperatureZero \<Rightarrow> ieee" where
  "slope_f32 st =
     fp_div binary32 (fp_sub binary32 (hotTemperature st) (roomTemperature st))
       (fp_sub binary32 (hotVoltageCompensated st) (roomVoltageCompensated st))"






section \<open>The ADC driver\<close>

text \<open>
  The constants of the device header (\<open>ADC_...\<close>, \<open>SYSCTRL_...\<close>), which is not part of
  the repository, are parameters, each at the width of the register or field it is
  written to. \<open>ADC_SAMPCTRL_SAMPLEN\<close> and \<open>ADC_AVGCTRL_ADJRES\<close> are macros with an
  argument.
\<close>

record device_defs =
  ADC_CTRLB_RESSEL_12BIT :: u16
  ADC_CTRLB_PRESCALER_DIV256 :: u16
  ADC_SAMPCTRL_SAMPLEN :: "u8 \<Rightarrow> u8"
  ADC_INPUTCTRL_GAIN_1X_Val :: "4 word"
  ADC_REFCTRL_REFSEL_INT1V_Val :: "4 word"
  ADC_INPUTCTRL_MUXPOS_TEMP_Val :: "5 word"
  ADC_INPUTCTRL_MUXNEG_GND_Val :: "5 word"
  ADC_INTFLAG_RESRDY :: u8
  ADC_AVGCTRL_SAMPLENUM_2 :: u8
  ADC_AVGCTRL_SAMPLENUM_4 :: u8
  ADC_AVGCTRL_SAMPLENUM_8 :: u8
  ADC_AVGCTRL_SAMPLENUM_16 :: u8
  ADC_AVGCTRL_SAMPLENUM_32 :: u8
  ADC_AVGCTRL_SAMPLENUM_64 :: u8
  ADC_AVGCTRL_SAMPLENUM_128 :: u8
  ADC_AVGCTRL_SAMPLENUM_256 :: u8
  ADC_AVGCTRL_ADJRES :: "u8 \<Rightarrow> u8"
  SYSCTRL_VREF_TSEN :: u32

text \<open>
  The averaging modes \<open>TZ_AVERAGING_...\<close> are macros of \<open>TemperatureZero.h\<close>, which is
  not among the sources: they are parameters too. As labels of one \<open>switch\<close> they are
  integer constants, different from each other.
\<close>

record tz_defs =
  TZ_AVERAGING_1 :: int
  TZ_AVERAGING_2 :: int
  TZ_AVERAGING_4 :: int
  TZ_AVERAGING_8 :: int
  TZ_AVERAGING_16 :: int
  TZ_AVERAGING_32 :: int
  TZ_AVERAGING_64 :: int
  TZ_AVERAGING_128 :: int
  TZ_AVERAGING_256 :: int

definition averaging_modes :: "tz_defs \<Rightarrow> int list" where
  "averaging_modes Z =
     [TZ_AVERAGING_1 Z, TZ_AVERAGING_2 Z, TZ_AVERAGING_4 Z, TZ_AVERAGING_8 Z, TZ_AVERAGING_16 Z,
      TZ_AVERAGING_32 Z, TZ_AVERAGING_64 Z, TZ_AVERAGING_128 Z, TZ_AVERAGING_256 Z]"

text \<open>
  The peripheral. The configuration registers and fields hold what was last written to
  them. Every write is also appended to \<open>writes\<close>. What the hardware answers is given
  with the state: \<open>SYNCBUSY_reads\<close> and \<open>RESRDY_reads\<close> are the values that
  \<open>STATUS.SYNCBUSY\<close> and \<open>INTFLAG.RESRDY\<close> show at the successive reads to come, and
  \<open>RESULT\<close> is the conversion result. A flag that has not changed by the end of its
  list never does: the busy-wait on it does not return.
\<close>

datatype reg_write =
  W_CTRLA_ENABLE bool
| W_CTRLB u16
| W_SAMPCTRL u8
| W_INPUTCTRL_GAIN "4 word"
| W_INPUTCTRL_MUXPOS "5 word"
| W_INPUTCTRL_MUXNEG "5 word"
| W_REFCTRL_REFSEL "4 word"
| W_AVGCTRL u8
| W_SWTRIG_START bool
| W_INTFLAG u8
| W_SYSCTRL_VREF u32

record hw =
  CTRLA_ENABLE :: bool
  CTRLB :: u16
  SAMPCTRL :: u8
  INPUTCTRL_GAIN :: "4 word"
  INPUTCTRL_MUXPOS :: "5 word"
  INPUTCTRL_MUXNEG :: "5 word"
  REFCTRL_REFSEL :: "4 word"
  AVGCTRL :: u8
  SYSCTRL_VREF :: u32
  writes :: "reg_write list"
  SYNCBUSY_reads :: "bool list"
  RESRDY_reads :: "bool list"
  RESULT :: u16

definition write_CTRLA_ENABLE :: "bool \<Rightarrow> hw \<Rightarrow> hw" where
  "write_CTRLA_ENABLE v h = h\<lparr>CTRLA_ENABLE := v, writes := writes h @ [W_CTRLA_ENABLE v]\<rparr>"

definition write_CTRLB :: "u16 \<Rightarrow> hw \<Rightarrow> hw" where
  "write_CTRLB v h = h\<lparr>CTRLB := v, writes := writes h @ [W_CTRLB v]\<rparr>"

definition write_SAMPCTRL :: "u8 \<Rightarrow> hw \<Rightarrow> hw" where
  "write_SAMPCTRL v h = h\<lparr>SAMPCTRL := v, writes := writes h @ [W_SAMPCTRL v]\<rparr>"

definition write_INPUTCTRL_GAIN :: "4 word \<Rightarrow> hw \<Rightarrow> hw" where
  "write_INPUTCTRL_GAIN v h = h\<lparr>INPUTCTRL_GAIN := v, writes := writes h @ [W_INPUTCTRL_GAIN v]\<rparr>"

definition write_INPUTCTRL_MUXPOS :: "5 word \<Rightarrow> hw \<Rightarrow> hw" where
  "write_INPUTCTRL_MUXPOS v h = h\<lparr>INPUTCTRL_MUXPOS := v, writes := writes h @ [W_INPUTCTRL_MUXPOS v]\<rparr>"

definition write_INPUTCTRL_MUXNEG :: "5 word \<Rightarrow> hw \<Rightarrow> hw" where
  "write_INPUTCTRL_MUXNEG v h = h\<lparr>INPUTCTRL_MUXNEG := v, writes := writes h @ [W_INPUTCTRL_MUXNEG v]\<rparr>"

definition write_REFCTRL_REFSEL :: "4 word \<Rightarrow> hw \<Rightarrow> hw" where
  "write_REFCTRL_REFSEL v h = h\<lparr>REFCTRL_REFSEL := v, writes := writes h @ [W_REFCTRL_REFSEL v]\<rparr>"

definition write_AVGCTRL :: "u8 \<Rightarrow> hw \<Rightarrow> hw" where
  "write_AVGCTRL v h = h\<lparr>AVGCTRL := v, writes := writes h @ [W_AVGCTRL v]\<rparr>"

definition write_SWTRIG_START :: "bool \<Rightarrow> hw \<Rightarrow> hw" where
  "write_SWTRIG_START v h = h\<lparr>writes := writes h @ [W_SWTRIG_START v]\<rparr>"

definition write_INTFLAG :: "u8 \<Rightarrow> hw \<Rightarrow> hw" where
  "write_INTFLAG v h = h\<lparr>writes := writes h @ [W_INTFLAG v]\<rparr>"

definition write_SYSCTRL_VREF :: "u32 \<Rightarrow> hw \<Rightarrow> hw" where
  "write_SYSCTRL_VREF v h = h\<lparr>SYSCTRL_VREF := v, writes := writes h @ [W_SYSCTRL_VREF v]\<rparr>"

text \<open>
  A busy-wait \<open>while (flag == v);\<close> reads the flag until it differs from \<open>v\<close>, and
  leaves the reads that are still to come. \<open>None\<close>: the loop never ends.
\<close>

fun spin_while :: "bool \<Rightarrow> bool list \<Rightarrow> bool list option" where
  "spin_while v [] = None"
| "spin_while v (b # bs) = (if b = v then spin_while v bs else Some bs)"

definition wait_SYNCBUSY :: "hw \<Rightarrow> hw option" where
  \<comment> \<open>\<open>while (ADC->STATUS.bit.SYNCBUSY == 1);\<close>\<close>
  "wait_SYNCBUSY h = map_option (\<lambda>bs. h\<lparr>SYNCBUSY_reads := bs\<rparr>) (spin_while True (SYNCBUSY_reads h))"

definition wait_RESRDY :: "hw \<Rightarrow> hw option" where
  \<comment> \<open>\<open>while (!(ADC->INTFLAG.bit.RESRDY));\<close>\<close>
  "wait_RESRDY h = map_option (\<lambda>bs. h\<lparr>RESRDY_reads := bs\<rparr>) (spin_while False (RESRDY_reads h))"

text \<open>After sleeping, the temperature sensor seems disabled. So, let's re-enable it.\<close>

definition wakeup :: "device_defs \<Rightarrow> hw \<Rightarrow> hw option" where
  "wakeup D h = wait_SYNCBUSY (write_SYSCTRL_VREF (SYSCTRL_VREF h OR SYSCTRL_VREF_TSEN D) h)"

definition init ::
  "device_defs \<Rightarrow> tz_defs \<Rightarrow> fuse_defs \<Rightarrow> memory \<Rightarrow> cfloat TemperatureZero \<Rightarrow> hw \<Rightarrow> (cfloat TemperatureZero \<times> hw) option" where
  "init D Z F mem st0 h =
     (let st = st0\<lparr>averaging := word_of_int (TZ_AVERAGING_64 Z)\<rparr>;
          st = st\<lparr>isUserCalEnabled := False\<rparr>;
          st = getFactoryCalibration F mem st
      in map_option (Pair st) (wakeup D h))"

text \<open>The settings saved on entry (lines 128 to 132).\<close>

record saved_settings =
  oldReadResolution :: u16
  oldSampling :: u16
  oldSampleAveraging :: u16
  oldReferenceGain :: u16
  oldReferenceSelect :: u16

definition save_settings :: "hw \<Rightarrow> saved_settings" where
  "save_settings h =
     \<lparr>oldReadResolution = CTRLB h,
      oldSampling = ucast (SAMPCTRL h),
      oldSampleAveraging = ucast (SAMPCTRL h),
      oldReferenceGain = ucast (INPUTCTRL_GAIN h),
      oldReferenceSelect = ucast (REFCTRL_REFSEL h)\<rparr>"

text \<open>
  The \<open>switch\<close> on \<open>_averaging\<close> (lines 159 to 187): the value its matching case writes
  to \<open>AVGCTRL\<close>. There is no \<open>default\<close>: no case matching, nothing is written.
\<close>

definition averaging_value :: "device_defs \<Rightarrow> tz_defs \<Rightarrow> u8 \<Rightarrow> u8 option" where
  "averaging_value D Z a =
     (if uint a = TZ_AVERAGING_1 Z then Some 0
      else if uint a = TZ_AVERAGING_2 Z then Some (ADC_AVGCTRL_SAMPLENUM_2 D OR ADC_AVGCTRL_ADJRES D 0x1)
      else if uint a = TZ_AVERAGING_4 Z then Some (ADC_AVGCTRL_SAMPLENUM_4 D OR ADC_AVGCTRL_ADJRES D 0x2)
      else if uint a = TZ_AVERAGING_8 Z then Some (ADC_AVGCTRL_SAMPLENUM_8 D OR ADC_AVGCTRL_ADJRES D 0x3)
      else if uint a = TZ_AVERAGING_16 Z then Some (ADC_AVGCTRL_SAMPLENUM_16 D OR ADC_AVGCTRL_ADJRES D 0x4)
      else if uint a = TZ_AVERAGING_32 Z then Some (ADC_AVGCTRL_SAMPLENUM_32 D OR ADC_AVGCTRL_ADJRES D 0x4)
      else if uint a = TZ_AVERAGING_64 Z then Some (ADC_AVGCTRL_SAMPLENUM_64 D OR ADC_AVGCTRL_ADJRES D 0x4)
      else if uint a = TZ_AVERAGING_128 Z then Some (ADC_AVGCTRL_SAMPLENUM_128 D OR ADC_AVGCTRL_ADJRES D 0x4)
      else if uint a = TZ_AVERAGING_256 Z then Some (ADC_AVGCTRL_SAMPLENUM_256 D OR ADC_AVGCTRL_ADJRES D 0x4)
      else None)"

definition perform_averaging :: "device_defs \<Rightarrow> tz_defs \<Rightarrow> u8 \<Rightarrow> hw \<Rightarrow> hw" where
  "perform_averaging D Z a h = (case averaging_value D Z a of Some v \<Rightarrow> write_AVGCTRL v h | None \<Rightarrow> h)"

text \<open>Get raw 12 bit adc reading.\<close>

definition readInternalTemperatureRaw ::
  "device_defs \<Rightarrow> tz_defs \<Rightarrow> 'f TemperatureZero \<Rightarrow> hw \<Rightarrow> (u16 \<times> hw) option" where
  "readInternalTemperatureRaw D Z st h0 =
     (let old = save_settings h0 in
      do {
        h \<leftarrow> wait_SYNCBUSY (write_CTRLB (ADC_CTRLB_RESSEL_12BIT D OR ADC_CTRLB_PRESCALER_DIV256 D) h0);
        h \<leftarrow> wait_SYNCBUSY (write_SAMPCTRL (ADC_SAMPCTRL_SAMPLEN D 0x3f) h);
        h \<leftarrow> wait_SYNCBUSY (write_REFCTRL_REFSEL (ADC_REFCTRL_REFSEL_INT1V_Val D)
               (write_INPUTCTRL_GAIN (ADC_INPUTCTRL_GAIN_1X_Val D) h));
        h \<leftarrow> wait_SYNCBUSY (write_INPUTCTRL_MUXNEG (ADC_INPUTCTRL_MUXNEG_GND_Val D)
               (write_INPUTCTRL_MUXPOS (ADC_INPUTCTRL_MUXPOS_TEMP_Val D) h));
        h \<leftarrow> wait_SYNCBUSY (write_CTRLA_ENABLE True h);
        h \<leftarrow> wait_RESRDY (write_SWTRIG_START True h);
        h \<leftarrow> wait_SYNCBUSY (perform_averaging D Z (averaging st) (write_INTFLAG (ADC_INTFLAG_RESRDY D) h));
        h \<leftarrow> wait_RESRDY (write_SWTRIG_START True h);
        h \<leftarrow> wait_SYNCBUSY h;
        adcReading \<leftarrow> Some (RESULT h);
        h \<leftarrow> wait_SYNCBUSY (write_INTFLAG (ADC_INTFLAG_RESRDY D) h);
        h \<leftarrow> wait_SYNCBUSY (write_CTRLA_ENABLE False h);
        h \<leftarrow> wait_SYNCBUSY (write_CTRLB (oldReadResolution old) h);
        h \<leftarrow> wait_SYNCBUSY (write_SAMPCTRL (ucast (oldSampleAveraging old))
               (write_SAMPCTRL (ucast (oldSampling old)) h));
        h \<leftarrow> wait_SYNCBUSY (write_REFCTRL_REFSEL (ucast (oldReferenceSelect old))
               (write_INPUTCTRL_GAIN (ucast (oldReferenceGain old)) h));
        Some (adcReading, h)
      })"

text \<open>Reads temperature using internal ADC channel.\<close>

definition readInternalTemperature ::
  "device_defs \<Rightarrow> tz_defs \<Rightarrow> cfloat TemperatureZero \<Rightarrow> hw \<Rightarrow> (cfloat \<times> cfloat TemperatureZero \<times> hw) option" where
  "readInternalTemperature D Z st h =
     do {
       (adcReading, h') \<leftarrow> readInternalTemperatureRaw D Z st h;
       let (t, st') = raw2temp st adcReading;
       Some (t, st', h')
     }"

section \<open>The specification's formulas\<close>











section \<open>Notions used in the statements\<close>



text \<open>
  The compensated voltage of a reading at a reference voltage, as lines 62, 63 and
  223 compute it.
\<close>

definition compensated_f32 :: "u16 \<Rightarrow> ieee \<Rightarrow> ieee" where
  "compensated_f32 reading ref =
     to_float (fp_div binary64 (fp_mul binary32 (f32_of_u16 reading) ref) (Num 4095))"



text \<open>
  The values that the \<open>switch\<close> of \<open>readInternalTemperatureRaw\<close> has for the nine
  modes, in the order of \<open>averaging_modes\<close>: the sample number with the right shift
  \<open>ADJRES\<close> (nothing for one sample).
\<close>

definition averaging_settings :: "device_defs \<Rightarrow> u8 list" where
  "averaging_settings D =
     [0,
      ADC_AVGCTRL_SAMPLENUM_2 D OR ADC_AVGCTRL_ADJRES D 0x1,
      ADC_AVGCTRL_SAMPLENUM_4 D OR ADC_AVGCTRL_ADJRES D 0x2,
      ADC_AVGCTRL_SAMPLENUM_8 D OR ADC_AVGCTRL_ADJRES D 0x3,
      ADC_AVGCTRL_SAMPLENUM_16 D OR ADC_AVGCTRL_ADJRES D 0x4,
      ADC_AVGCTRL_SAMPLENUM_32 D OR ADC_AVGCTRL_ADJRES D 0x4,
      ADC_AVGCTRL_SAMPLENUM_64 D OR ADC_AVGCTRL_ADJRES D 0x4,
      ADC_AVGCTRL_SAMPLENUM_128 D OR ADC_AVGCTRL_ADJRES D 0x4,
      ADC_AVGCTRL_SAMPLENUM_256 D OR ADC_AVGCTRL_ADJRES D 0x4]"

section \<open>Concrete devices\<close>

text \<open>
  The layout of the temperature log row and the ADC constants of a SAM D21, and fuse
  contents: the calibration of the specification's end-to-end scenarios (25.0 and
  85.0 degrees, readings 2000 and 3000, reference deltas 0 and 10 mV); one with a
  hot reading of 2400 and a hot reference delta of 100 mV; the first with both
  reference deltas 10 mV, and with reference deltas 10 and 0 mV; and one with
  temperatures 85.1 and 85.11 degrees, readings 0 and 4095 and no reference delta.
\<close>

definition samd21_fuses :: fuse_defs where
  "samd21_fuses =
     \<lparr>FUSES_ADDR = (\<lambda>f. case f of
          ROOM_TEMP_VAL_INT \<Rightarrow> 0x806030 | ROOM_TEMP_VAL_DEC \<Rightarrow> 0x806030
        | HOT_TEMP_VAL_INT \<Rightarrow> 0x806030 | HOT_TEMP_VAL_DEC \<Rightarrow> 0x806030
        | ROOM_INT1V_VAL \<Rightarrow> 0x806030 | HOT_INT1V_VAL \<Rightarrow> 0x806034
        | ROOM_ADC_VAL \<Rightarrow> 0x806034 | HOT_ADC_VAL \<Rightarrow> 0x806034),
      FUSES_Msk = (\<lambda>f. case f of
          ROOM_TEMP_VAL_INT \<Rightarrow> 0xFF | ROOM_TEMP_VAL_DEC \<Rightarrow> 0xF00
        | HOT_TEMP_VAL_INT \<Rightarrow> 0xFF000 | HOT_TEMP_VAL_DEC \<Rightarrow> 0xF00000
        | ROOM_INT1V_VAL \<Rightarrow> 0xFF000000 | HOT_INT1V_VAL \<Rightarrow> 0xFF
        | ROOM_ADC_VAL \<Rightarrow> 0xFFF00 | HOT_ADC_VAL \<Rightarrow> 0xFFF00000),
      FUSES_Pos = (\<lambda>f. case f of
          ROOM_TEMP_VAL_INT \<Rightarrow> 0 | ROOM_TEMP_VAL_DEC \<Rightarrow> 8
        | HOT_TEMP_VAL_INT \<Rightarrow> 12 | HOT_TEMP_VAL_DEC \<Rightarrow> 20
        | ROOM_INT1V_VAL \<Rightarrow> 24 | HOT_INT1V_VAL \<Rightarrow> 0
        | ROOM_ADC_VAL \<Rightarrow> 8 | HOT_ADC_VAL \<Rightarrow> 20)\<rparr>"

definition fuse_words :: "u32 \<Rightarrow> u32 \<Rightarrow> memory" where
  "fuse_words w0 w1 a = (if a = 0x806030 then w0 else if a = 0x806034 then w1 else 0)"

definition seed_memory :: memory where
  "seed_memory = fuse_words 0x00055019 0xBB87D00A"


definition flat_memory :: memory where
  "flat_memory = fuse_words 0x0A055019 0xBB87D00A"



definition blank_object :: "cfloat TemperatureZero" where
  "blank_object =
     \<lparr>averaging = 0, isUserCalEnabled = False, userCalGainCorrection = Fin 0,
      userCalOffsetCorrection = Fin 0, roomTemperature = Fin 0, roomReading = 0,
      hotTemperature = Fin 0, hotReading = 0, roomInt1vRef = Fin 0, hotInt1vRef = Fin 0,
      roomVoltageCompensated = Fin 0, hotVoltageCompensated = Fin 0\<rparr>"

definition seed_object :: "cfloat TemperatureZero" where
  "seed_object = getFactoryCalibration samd21_fuses seed_memory blank_object"

definition blank_f32 :: "ieee TemperatureZero" where
  "blank_f32 =
     \<lparr>averaging = 0, isUserCalEnabled = False, userCalGainCorrection = Num 0,
      userCalOffsetCorrection = Num 0, roomTemperature = Num 0, roomReading = 0,
      hotTemperature = Num 0, hotReading = 0, roomInt1vRef = Num 0, hotInt1vRef = Num 0,
      roomVoltageCompensated = Num 0, hotVoltageCompensated = Num 0\<rparr>"


definition flat_f32 :: "ieee TemperatureZero" where
  "flat_f32 = getFactoryCalibration_f32 samd21_fuses flat_memory blank_f32"




definition samd21_defs :: device_defs where
  "samd21_defs =
     \<lparr>ADC_CTRLB_RESSEL_12BIT = 0x0000,
      ADC_CTRLB_PRESCALER_DIV256 = 0x0600,
      ADC_SAMPCTRL_SAMPLEN = (\<lambda>v. v AND 0x3F),
      ADC_INPUTCTRL_GAIN_1X_Val = 0x0,
      ADC_REFCTRL_REFSEL_INT1V_Val = 0x0,
      ADC_INPUTCTRL_MUXPOS_TEMP_Val = 0x18,
      ADC_INPUTCTRL_MUXNEG_GND_Val = 0x18,
      ADC_INTFLAG_RESRDY = 0x01,
      ADC_AVGCTRL_SAMPLENUM_2 = 0x1,
      ADC_AVGCTRL_SAMPLENUM_4 = 0x2,
      ADC_AVGCTRL_SAMPLENUM_8 = 0x3,
      ADC_AVGCTRL_SAMPLENUM_16 = 0x4,
      ADC_AVGCTRL_SAMPLENUM_32 = 0x5,
      ADC_AVGCTRL_SAMPLENUM_64 = 0x6,
      ADC_AVGCTRL_SAMPLENUM_128 = 0x7,
      ADC_AVGCTRL_SAMPLENUM_256 = 0x8,
      ADC_AVGCTRL_ADJRES = (\<lambda>v. push_bit 4 v AND 0x70),
      SYSCTRL_VREF_TSEN = 0x2\<rparr>"

definition numbered_modes :: tz_defs where
  "numbered_modes =
     \<lparr>TZ_AVERAGING_1 = 1, TZ_AVERAGING_2 = 2, TZ_AVERAGING_4 = 3, TZ_AVERAGING_8 = 4,
      TZ_AVERAGING_16 = 5, TZ_AVERAGING_32 = 6, TZ_AVERAGING_64 = 7, TZ_AVERAGING_128 = 8,
      TZ_AVERAGING_256 = 9\<rparr>"

text \<open>
  An ADC that the application left configured for its own use, and that answers each
  busy-wait after a few reads; and the same ADC after a temperature read that wrote
  \<open>ws\<close> in its \<open>switch\<close> and left \<open>v\<close> in \<open>AVGCTRL\<close>.
\<close>

definition app_adc :: hw where
  "app_adc =
     \<lparr>CTRLA_ENABLE = False, CTRLB = 0x0520, SAMPCTRL = 0x05, INPUTCTRL_GAIN = 0xF,
      INPUTCTRL_MUXPOS = 0x02, INPUTCTRL_MUXNEG = 0x19, REFCTRL_REFSEL = 0x2, AVGCTRL = 0x13,
      SYSCTRL_VREF = 0x0, writes = [],
      SYNCBUSY_reads = [True, False, False, True, True, False, False, False, False, False,
                        False, True, False, False, False, False],
      RESRDY_reads = [False, False, True, False, True],
      RESULT = 2500\<rparr>"

definition app_adc_after :: "reg_write list \<Rightarrow> u8 \<Rightarrow> hw" where
  "app_adc_after ws v =
     \<lparr>CTRLA_ENABLE = False, CTRLB = 0x0520, SAMPCTRL = 0x05, INPUTCTRL_GAIN = 0xF,
      INPUTCTRL_MUXPOS = 0x18, INPUTCTRL_MUXNEG = 0x18, REFCTRL_REFSEL = 0x2, AVGCTRL = v,
      SYSCTRL_VREF = 0x0,
      writes =
        [W_CTRLB 0x0600, W_SAMPCTRL 0x3F, W_INPUTCTRL_GAIN 0x0, W_REFCTRL_REFSEL 0x0,
         W_INPUTCTRL_MUXPOS 0x18, W_INPUTCTRL_MUXNEG 0x18, W_CTRLA_ENABLE True,
         W_SWTRIG_START True, W_INTFLAG 0x01] @ ws @
        [W_SWTRIG_START True, W_INTFLAG 0x01, W_CTRLA_ENABLE False, W_CTRLB 0x0520,
         W_SAMPCTRL 0x05, W_SAMPCTRL 0x05, W_INPUTCTRL_GAIN 0xF, W_REFCTRL_REFSEL 0x2],
      SYNCBUSY_reads = [], RESRDY_reads = [],
      RESULT = 2500\<rparr>"

section \<open>Observations on a run\<close>

text \<open>
  The writes to \<open>AVGCTRL\<close> among those made between the states \<open>h\<close> and \<open>h'\<close>, and the
  number of reads left at which a busy-wait on each flag ends.
\<close>

fun is_AVGCTRL_write :: "reg_write \<Rightarrow> bool" where
  "is_AVGCTRL_write (W_AVGCTRL v) = True"
| "is_AVGCTRL_write w = False"

definition new_writes :: "hw \<Rightarrow> hw \<Rightarrow> reg_write list" where
  "new_writes h h' = drop (length (writes h)) (writes h')"

definition AVGCTRL_writes :: "hw \<Rightarrow> hw \<Rightarrow> reg_write list" where
  "AVGCTRL_writes h h' = filter is_AVGCTRL_write (new_writes h h')"

definition free_syncs :: "hw \<Rightarrow> nat" where
  "free_syncs h = length (filter (\<lambda>b. b \<noteq> True) (SYNCBUSY_reads h))"

definition ready_results :: "hw \<Rightarrow> nat" where
  "ready_results h = length (filter (\<lambda>b. b \<noteq> False) (RESRDY_reads h))"

section \<open>Arithmetic of the idealised floats\<close>

lemma fsub_Fin [simp]: "fsub (Fin a) (Fin b) = Fin (a - b)"
  by (simp add: fsub_def)

lemma fsub_zero: "fsub x (Fin 0) = x"
  by (cases x) (simp_all add: fsub_def)

lemma fmul_one: "fmul x (Fin 1) = x"
  by (cases x) simp_all


section \<open>Concrete calibrations, evaluated\<close>

lemma seed_object_eq:
  "seed_object =
     \<lparr>averaging = 0, isUserCalEnabled = False, userCalGainCorrection = Fin 0,
      userCalOffsetCorrection = Fin 0, roomTemperature = Fin 25, roomReading = 2000,
      hotTemperature = Fin 85, hotReading = 3000, roomInt1vRef = Fin 1,
      hotInt1vRef = Fin (99 / 100), roomVoltageCompensated = Fin (2000 / 4095),
      hotVoltageCompensated = Fin (2970 / 4095)\<rparr>"
  by (simp add: seed_object_def getFactoryCalibration_def read_fuse_def samd21_fuses_def
      seed_memory_def fuse_words_def blank_object_def convert_dec_to_frac_def float_of_u8_def
      float_of_u16_def float_of_s8_def INT1V_DIVIDER_1000_def
      ADC_12BIT_FULL_SCALE_VALUE_FLOAT_def Let_def)

lemmas raw2temp_eval = raw2temp_def refinedTemp_def measureVoltageCompensated_def
  ref1VAtMeasurement_def coarse_temp_def meaurementVoltage_def float_of_u16_def
  ADC_12BIT_FULL_SCALE_VALUE_FLOAT_def user_correction_def Let_def

lemma seed_object_2500:
  "coarse_temp seed_object 2500 = Fin (5425 / 97)"
  "ref1VAtMeasurement seed_object 2500 = Fin (193 / 194)"
  "measureVoltageCompensated seed_object 2500 = Fin (48250 / 79443)"
  "refinedTemp seed_object 2500 = Fin (518725 / 9409)"
  "fst (raw2temp seed_object 2500) = Fin (518725 / 9409)"
  by (simp_all add: seed_object_eq raw2temp_eval)

section \<open>The converter against the specification\<close>








text \<open>
  C9. For every raw reading and every state of the object, the identity user
  calibration (gain 1.0, offset 0.0, enabled) gives the result that disabling user
  calibration gives.
\<close>

theorem raw2temp_identity_user_cal:
  "fst (raw2temp (setUserCalibration (Fin 1) (Fin 0) True st) raw) =
   fst (raw2temp (enableUserCalibration False st) raw)"
  by (simp add: raw2temp_def setUserCalibration_def enableUserCalibration_def Let_def
      user_correction_def fsub_zero fmul_one refinedTemp_def measureVoltageCompensated_def
      ref1VAtMeasurement_def coarse_temp_def)

theorem raw2temp_identity_user_cal_witness:
  "fst (raw2temp (setUserCalibration (Fin 1) (Fin 0) True seed_object) 2500) =
     fst (raw2temp (enableUserCalibration False seed_object) 2500) \<and>
   fst (raw2temp (enableUserCalibration False seed_object) 2500) = Fin (518725 / 9409) \<and>
   isUserCalEnabled (setUserCalibration (Fin 1) (Fin 0) True seed_object)"
  using raw2temp_identity_user_cal[of seed_object 2500]
  by (simp add: seed_object_eq raw2temp_eval enableUserCalibration_def setUserCalibration_def)

text \<open>
  C10. \<open>raw2temp\<close> leaves every member of the object as it was, and a second call on
  the object it leaves, with the same reading, returns what the first returned.
\<close>

theorem raw2temp_pure:
  "snd (raw2temp st raw) = st \<and> raw2temp (snd (raw2temp st raw)) raw = raw2temp st raw"
  by (simp add: raw2temp_def Let_def)

theorem raw2temp_pure_witness:
  "snd (raw2temp seed_object 2500) = seed_object \<and>
   fst (raw2temp (snd (raw2temp seed_object 2500)) 2500) = Fin (518725 / 9409)"
  using raw2temp_pure[of seed_object 2500] by (simp add: seed_object_2500)

section \<open>Fraction reconstruction\<close>




section \<open>Rounding to nearest\<close>







lemma round_even_of_int [simp]: "round_even (of_int m) = m"
  by (simp add: round_even_def)

lemma round_even_power [simp]: "round_even (2 ^ n) = 2 ^ n"
  using round_even_of_int[of "2 ^ n"] by (simp del: round_even_of_int)







lemma quantum_nonneg [simp]: "0 \<le> quantum f x"
  by (simp add: quantum_def)

lemma round_even_zero [simp]: "round_even 0 = 0"
  by (simp add: round_even_def)

lemma quantum_minus [simp]: "quantum f (- x) = quantum f x"
  by (simp add: quantum_def)

lemma nearest_zero [simp]: "nearest f 0 = 0"
  by (simp add: nearest_def)
















subsection \<open>Rounded results\<close>

lemma round_to_not_Nan [simp]: "round_to f x \<noteq> Nan"
  by (simp add: round_to_def)



lemma valof_zero_of [simp]: "valof (zero_of s) = 0"
  by (simp add: zero_of_def)

lemma is_finite_zero_of [simp]: "is_finite (zero_of s)"
  by (simp add: zero_of_def)

lemma is_finite_inf_of [simp]: "\<not> is_finite (inf_of s)"
  by (simp add: inf_of_def)

lemma valof_fp_neg [simp]: "valof (fp_neg x) = - valof x"
  by (cases x) auto

lemma is_finite_fp_neg [simp]: "is_finite (fp_neg x) = is_finite x"
  by (cases x) auto







lemma precision_binary [simp]: "0 < precision binary32" "0 < precision binary64"
  by (simp_all add: binary32_def binary64_def)

subsection \<open>Powers of two are representable\<close>





subsection \<open>Operations on finite operands\<close>






section \<open>The converter in binary32: monotonic steps\<close>



subsection \<open>What a finite result says of the intermediate values\<close>





subsection \<open>Each step is monotonic\<close>






section \<open>The factory calibration in binary32\<close>

lemma emin_emax [simp]:
  "emin binary32 = - 126" "emax binary32 = 127" "emin binary64 = - 1022" "emax binary64 = 1023"
  "precision binary32 = 24" "precision binary64 = 53"
  by (simp_all add: binary32_def binary64_def)












lemma getFactoryCalibration_f32_fields:
  "roomTemperature (getFactoryCalibration_f32 F mem st0) =
     fp_add binary32 (f32_of_u8 (ucast (read_fuse F mem ROOM_TEMP_VAL_INT)))
       (convert_dec_to_frac_f32 (ucast (read_fuse F mem ROOM_TEMP_VAL_DEC)))"
  "hotTemperature (getFactoryCalibration_f32 F mem st0) =
     fp_add binary32 (f32_of_u8 (ucast (read_fuse F mem HOT_TEMP_VAL_INT)))
       (convert_dec_to_frac_f32 (ucast (read_fuse F mem HOT_TEMP_VAL_DEC)))"
  "roomInt1vRef (getFactoryCalibration_f32 F mem st0) =
     to_float (fp_sub binary64 (Num 1)
       (fp_div binary64 (f32_of_s8 (ucast (read_fuse F mem ROOM_INT1V_VAL))) (Num 1000)))"
  "hotInt1vRef (getFactoryCalibration_f32 F mem st0) =
     to_float (fp_sub binary64 (Num 1)
       (fp_div binary64 (f32_of_s8 (ucast (read_fuse F mem HOT_INT1V_VAL))) (Num 1000)))"
  "roomReading (getFactoryCalibration_f32 F mem st0) = ucast (read_fuse F mem ROOM_ADC_VAL)"
  "hotReading (getFactoryCalibration_f32 F mem st0) = ucast (read_fuse F mem HOT_ADC_VAL)"
  "roomVoltageCompensated (getFactoryCalibration_f32 F mem st0) =
     compensated_f32 (roomReading (getFactoryCalibration_f32 F mem st0))
       (roomInt1vRef (getFactoryCalibration_f32 F mem st0))"
  "hotVoltageCompensated (getFactoryCalibration_f32 F mem st0) =
     compensated_f32 (hotReading (getFactoryCalibration_f32 F mem st0))
       (hotInt1vRef (getFactoryCalibration_f32 F mem st0))"
  "isUserCalEnabled (getFactoryCalibration_f32 F mem st0) = isUserCalEnabled st0"
  by (simp_all add: getFactoryCalibration_f32_def Let_def compensated_f32_def)


subsection \<open>Granularity of the representable numbers\<close>





subsection \<open>The compensated voltages\<close>



subsection \<open>Equal factory references\<close>








subsection \<open>Rounding errors at the hot point\<close>




subsection \<open>The two calibration points\<close>




section \<open>Concrete calibrations in binary32, evaluated\<close>

text \<open>
  Rounding at a given rational number is a computation: the leading bit by counting
  binary digits, then the nearest multiple of the quantum.
\<close>

lemma bitlen_numeral_simps [simp]:
  "bitlen 1 = 1"
  "bitlen (numeral Num.One) = 1"
  "bitlen (numeral (Num.Bit0 n)) = 1 + bitlen (numeral n)"
  "bitlen (numeral (Num.Bit1 n)) = 1 + bitlen (numeral n)"
  "bitlen (- numeral n) = 0"
proof -
  show "bitlen 1 = 1" by (subst compute_bitlen) simp
  then show "bitlen (numeral Num.One) = 1" by simp
  show "bitlen (numeral (Num.Bit0 n)) = 1 + bitlen (numeral n)"
    by (subst compute_bitlen) simp
  show "bitlen (numeral (Num.Bit1 n)) = 1 + bitlen (numeral n)"
    by (subst compute_bitlen) simp
  show "bitlen (- numeral n) = 0" by (subst compute_bitlen) simp
qed

lemmas round_eval = round_to_def nearest_def quantum_def ilog2_def round_even_def
  binary32_def binary64_def Let_def

lemmas op_eval = fp_add_def fp_sub_def fp_mul_def fp_div_def to_float_def float_of_int_def
  zero_of_def inf_of_def f32_of_u8_def f32_of_u16_def f32_of_s8_def




lemma flat_f32_fuses:
  "(ucast (read_fuse samd21_fuses flat_memory ROOM_TEMP_VAL_INT) :: u8) = 25"
  "(ucast (read_fuse samd21_fuses flat_memory ROOM_TEMP_VAL_DEC) :: u8) = 0"
  "(ucast (read_fuse samd21_fuses flat_memory HOT_TEMP_VAL_INT) :: u8) = 85"
  "(ucast (read_fuse samd21_fuses flat_memory HOT_TEMP_VAL_DEC) :: u8) = 0"
  "(ucast (read_fuse samd21_fuses flat_memory ROOM_INT1V_VAL) :: s8) = 10"
  "(ucast (read_fuse samd21_fuses flat_memory HOT_INT1V_VAL) :: s8) = 10"
  "(ucast (read_fuse samd21_fuses flat_memory ROOM_ADC_VAL) :: u16) = 2000"
  "(ucast (read_fuse samd21_fuses flat_memory HOT_ADC_VAL) :: u16) = 3000"
  by (simp_all add: read_fuse_def samd21_fuses_def flat_memory_def fuse_words_def)

lemma flat_f32_fields:
  "roomTemperature flat_f32 = Num 25" "hotTemperature flat_f32 = Num 85"
  "roomInt1vRef flat_f32 = Num (4152361 / 4194304)" "hotInt1vRef flat_f32 = Num (4152361 / 4194304)"
  "roomReading flat_f32 = 2000" "hotReading flat_f32 = 3000"
  "roomVoltageCompensated flat_f32 = Num (16224121 / 33554432)"
  "hotVoltageCompensated flat_f32 = Num (12168091 / 16777216)"
  "isUserCalEnabled flat_f32 = False"
  by (simp_all add: flat_f32_def getFactoryCalibration_f32_fields flat_f32_fuses convert_dec_to_frac_f32_def
      compensated_f32_def blank_f32_def op_eval round_eval)

lemma flat_f32_slope: "slope_f32 flat_f32 = Num (16264843 / 65536)"
  by (simp add: slope_f32_def flat_f32_fields op_eval round_eval)
























section \<open>The calibration points\<close>





section \<open>Monotonicity\<close>




section \<open>Two-point user calibration\<close>









section \<open>The ADC driver\<close>

lemmas write_defs = write_CTRLA_ENABLE_def write_CTRLB_def write_SAMPCTRL_def
  write_INPUTCTRL_GAIN_def write_INPUTCTRL_MUXPOS_def write_INPUTCTRL_MUXNEG_def
  write_REFCTRL_REFSEL_def write_AVGCTRL_def write_SWTRIG_START_def write_INTFLAG_def

subsection \<open>The read returns when the hardware answers\<close>

lemma spin_while_returns:
  "0 < length (filter (\<lambda>b. b \<noteq> v) bs) \<Longrightarrow>
   \<exists>bs'. spin_while v bs = Some bs' \<and>
     length (filter (\<lambda>b. b \<noteq> v) bs') = length (filter (\<lambda>b. b \<noteq> v) bs) - 1"
  by (induction bs) auto

lemma bind_wait_SYNCBUSY:
  assumes "0 < free_syncs h"
    and "\<And>h'. free_syncs h' = free_syncs h - 1 \<Longrightarrow> ready_results h' = ready_results h \<Longrightarrow>
           f h' \<noteq> None"
  shows "(wait_SYNCBUSY h \<bind> f) \<noteq> None"
proof -
  from spin_while_returns[of True "SYNCBUSY_reads h"] assms(1)
  obtain bs where "spin_while True (SYNCBUSY_reads h) = Some bs"
    "length (filter (\<lambda>b. b \<noteq> True) bs) = free_syncs h - 1"
    by (auto simp: free_syncs_def)
  then show ?thesis
    using assms(2)[of "h\<lparr>SYNCBUSY_reads := bs\<rparr>"]
    by (simp add: wait_SYNCBUSY_def free_syncs_def ready_results_def)
qed

lemma bind_wait_RESRDY:
  assumes "0 < ready_results h"
    and "\<And>h'. ready_results h' = ready_results h - 1 \<Longrightarrow> free_syncs h' = free_syncs h \<Longrightarrow>
           f h' \<noteq> None"
  shows "(wait_RESRDY h \<bind> f) \<noteq> None"
proof -
  from spin_while_returns[of False "RESRDY_reads h"] assms(1)
  obtain bs where "spin_while False (RESRDY_reads h) = Some bs"
    "length (filter (\<lambda>b. b \<noteq> False) bs) = ready_results h - 1"
    by (auto simp: ready_results_def)
  then show ?thesis
    using assms(2)[of "h\<lparr>RESRDY_reads := bs\<rparr>"]
    by (simp add: wait_RESRDY_def free_syncs_def ready_results_def)
qed

lemma counts_write [simp]:
  "free_syncs (write_CTRLA_ENABLE b h) = free_syncs h"
  "free_syncs (write_CTRLB v16 h) = free_syncs h"
  "free_syncs (write_SAMPCTRL v8 h) = free_syncs h"
  "free_syncs (write_INPUTCTRL_GAIN v4 h) = free_syncs h"
  "free_syncs (write_INPUTCTRL_MUXPOS v5 h) = free_syncs h"
  "free_syncs (write_INPUTCTRL_MUXNEG v5 h) = free_syncs h"
  "free_syncs (write_REFCTRL_REFSEL v4 h) = free_syncs h"
  "free_syncs (write_SWTRIG_START b h) = free_syncs h"
  "free_syncs (write_INTFLAG v8 h) = free_syncs h"
  "free_syncs (perform_averaging D Z a h) = free_syncs h"
  "ready_results (write_CTRLA_ENABLE b h) = ready_results h"
  "ready_results (write_CTRLB v16 h) = ready_results h"
  "ready_results (write_SAMPCTRL v8 h) = ready_results h"
  "ready_results (write_INPUTCTRL_GAIN v4 h) = ready_results h"
  "ready_results (write_INPUTCTRL_MUXPOS v5 h) = ready_results h"
  "ready_results (write_INPUTCTRL_MUXNEG v5 h) = ready_results h"
  "ready_results (write_REFCTRL_REFSEL v4 h) = ready_results h"
  "ready_results (write_SWTRIG_START b h) = ready_results h"
  "ready_results (write_INTFLAG v8 h) = ready_results h"
  "ready_results (perform_averaging D Z a h) = ready_results h"
  by (simp_all add: free_syncs_def ready_results_def write_defs perform_averaging_def
      split: option.splits)

lemma readInternalTemperatureRaw_returns:
  assumes "12 \<le> free_syncs h" and "2 \<le> ready_results h"
  shows "readInternalTemperatureRaw D Z st h \<noteq> None"
  unfolding readInternalTemperatureRaw_def Let_def
  using assms
  apply -
  apply ((rule bind_wait_SYNCBUSY bind_wait_RESRDY, simp) | simp only: Option.bind.simps)+
  apply simp
  done

corollary readInternalTemperatureRaw_result:
  assumes "12 \<le> free_syncs h" and "2 \<le> ready_results h"
  shows "\<exists>r h'. readInternalTemperatureRaw D Z st h = Some (r, h')"
  using readInternalTemperatureRaw_returns[OF assms, of D Z st] by auto

subsection \<open>What a read leaves behind\<close>

lemma wait_SYNCBUSY_SomeD: "wait_SYNCBUSY h = Some h' \<Longrightarrow> \<exists>bs. h' = h\<lparr>SYNCBUSY_reads := bs\<rparr>"
  by (auto simp: wait_SYNCBUSY_def)

lemma wait_RESRDY_SomeD: "wait_RESRDY h = Some h' \<Longrightarrow> \<exists>bs. h' = h\<lparr>RESRDY_reads := bs\<rparr>"
  by (auto simp: wait_RESRDY_def)

lemma ucast_u8_u16_u8: "ucast (ucast (x :: u8) :: u16) = x"
  by (simp add: ucast_up_ucast_id is_up)

lemma ucast_4_16_4: "ucast (ucast (x :: 4 word) :: u16) = x"
  by (simp add: ucast_up_ucast_id is_up)

lemma read_raw_effect:
  assumes "readInternalTemperatureRaw D Z st h0 = Some (r, h')"
  shows "r = RESULT h0 \<and>
    CTRLB h' = CTRLB h0 \<and> SAMPCTRL h' = SAMPCTRL h0 \<and>
    INPUTCTRL_GAIN h' = INPUTCTRL_GAIN h0 \<and> REFCTRL_REFSEL h' = REFCTRL_REFSEL h0 \<and>
    AVGCTRL h' = (case averaging_value D Z (averaging st) of Some v \<Rightarrow> v | None \<Rightarrow> AVGCTRL h0) \<and>
    new_writes h0 h' =
      [W_CTRLB (ADC_CTRLB_RESSEL_12BIT D OR ADC_CTRLB_PRESCALER_DIV256 D),
       W_SAMPCTRL (ADC_SAMPCTRL_SAMPLEN D 0x3f),
       W_INPUTCTRL_GAIN (ADC_INPUTCTRL_GAIN_1X_Val D),
       W_REFCTRL_REFSEL (ADC_REFCTRL_REFSEL_INT1V_Val D),
       W_INPUTCTRL_MUXPOS (ADC_INPUTCTRL_MUXPOS_TEMP_Val D),
       W_INPUTCTRL_MUXNEG (ADC_INPUTCTRL_MUXNEG_GND_Val D),
       W_CTRLA_ENABLE True, W_SWTRIG_START True, W_INTFLAG (ADC_INTFLAG_RESRDY D)] @
      (case averaging_value D Z (averaging st) of Some v \<Rightarrow> [W_AVGCTRL v] | None \<Rightarrow> []) @
      [W_SWTRIG_START True, W_INTFLAG (ADC_INTFLAG_RESRDY D), W_CTRLA_ENABLE False,
       W_CTRLB (CTRLB h0), W_SAMPCTRL (SAMPCTRL h0), W_SAMPCTRL (SAMPCTRL h0),
       W_INPUTCTRL_GAIN (INPUTCTRL_GAIN h0), W_REFCTRL_REFSEL (REFCTRL_REFSEL h0)]"
  using assms
  unfolding readInternalTemperatureRaw_def Let_def
  apply (clarsimp simp: bind_eq_Some_conv)
  apply (drule wait_SYNCBUSY_SomeD wait_RESRDY_SomeD)+
  apply (clarsimp simp: write_defs save_settings_def ucast_u8_u16_u8 ucast_4_16_4
      perform_averaging_def new_writes_def split: option.splits)
  done

lemma read_raw_AVGCTRL_writes:
  assumes "readInternalTemperatureRaw D Z st h0 = Some (r, h')"
  shows "AVGCTRL_writes h0 h' =
     (case averaging_value D Z (averaging st) of Some v \<Rightarrow> [W_AVGCTRL v] | None \<Rightarrow> [])"
  using read_raw_effect[OF assms] by (simp add: AVGCTRL_writes_def split: option.splits)

lemmas run_defs = readInternalTemperatureRaw_def save_settings_def write_defs wait_SYNCBUSY_def
  wait_RESRDY_def perform_averaging_def averaging_value_def samd21_defs_def numbered_modes_def
  setAveraging_def blank_object_def app_adc_def app_adc_after_def

lemma run_mode_64:
  "readInternalTemperatureRaw samd21_defs numbered_modes (setAveraging 7 blank_object) app_adc =
     Some (2500, app_adc_after [W_AVGCTRL 0x46] 0x46)"
  by (simp add: run_defs)

lemma run_mode_1:
  "readInternalTemperatureRaw samd21_defs numbered_modes (setAveraging 1 blank_object) app_adc =
     Some (2500, app_adc_after [W_AVGCTRL 0] 0)"
  by (simp add: run_defs)

lemma run_mode_invalid:
  "readInternalTemperatureRaw samd21_defs numbered_modes (setAveraging 0 blank_object) app_adc =
     Some (2500, app_adc_after [] 0x13)"
  by (simp add: run_defs)

lemma averaging_value_64:
  "averaging_value samd21_defs numbered_modes (averaging (setAveraging 7 blank_object)) = Some 0x46"
  by (simp add: averaging_value_def samd21_defs_def numbered_modes_def setAveraging_def)

lemma distinct_numbered_modes: "distinct (averaging_modes numbered_modes)"
  by (simp add: averaging_modes_def numbered_modes_def)

text \<open>
  C5. Whenever \<open>readInternalTemperatureRaw\<close> returns, the control-B register, the
  sample-timing register, the input gain and the reference selection hold the
  values they held on entry, whatever the entry state, the constants of the device
  header and the averaging mode are.
\<close>

theorem read_raw_restores:
  assumes "readInternalTemperatureRaw D Z st h = Some (r, h')"
  shows "CTRLB h' = CTRLB h \<and> SAMPCTRL h' = SAMPCTRL h \<and>
         INPUTCTRL_GAIN h' = INPUTCTRL_GAIN h \<and> REFCTRL_REFSEL h' = REFCTRL_REFSEL h"
  using read_raw_effect[OF assms] by simp

theorem read_raw_restores_witness:
  "12 \<le> free_syncs app_adc \<and> 2 \<le> ready_results app_adc \<and>
   CTRLB (app_adc_after [W_AVGCTRL 0x46] 0x46) = CTRLB app_adc \<and>
   SAMPCTRL (app_adc_after [W_AVGCTRL 0x46] 0x46) = SAMPCTRL app_adc \<and>
   INPUTCTRL_GAIN (app_adc_after [W_AVGCTRL 0x46] 0x46) = INPUTCTRL_GAIN app_adc \<and>
   REFCTRL_REFSEL (app_adc_after [W_AVGCTRL 0x46] 0x46) = REFCTRL_REFSEL app_adc \<and>
   CTRLB app_adc = 0x0520 \<and> SAMPCTRL app_adc = 0x05"
  using read_raw_restores[OF run_mode_64]
  by (simp add: app_adc_def free_syncs_def ready_results_def)

subsection \<open>The read returns only when the hardware answers\<close>

lemma spin_while_SomeD:
  "spin_while v bs = Some bs' \<Longrightarrow>
     length (filter (\<lambda>b. b \<noteq> v) bs) = Suc (length (filter (\<lambda>b. b \<noteq> v) bs'))"
  by (induction bs) (auto split: if_splits)

lemma averaging_value_Some:
  "uint a \<in> set (averaging_modes Z) \<Longrightarrow> \<exists>v. averaging_value D Z a = Some v"
  by (auto simp: averaging_value_def averaging_modes_def)

lemma wait_SYNCBUSY_count:
  "wait_SYNCBUSY h = Some h' \<Longrightarrow> free_syncs h = Suc (free_syncs h') \<and> ready_results h' = ready_results h"
  by (auto simp: wait_SYNCBUSY_def free_syncs_def ready_results_def dest: spin_while_SomeD)

lemma wait_RESRDY_count:
  "wait_RESRDY h = Some h' \<Longrightarrow> ready_results h = Suc (ready_results h') \<and> free_syncs h' = free_syncs h"
  by (auto simp: wait_RESRDY_def free_syncs_def ready_results_def dest: spin_while_SomeD)

lemma readInternalTemperatureRaw_needs:
  assumes "readInternalTemperatureRaw D Z st h = Some y"
  shows "12 \<le> free_syncs h \<and> 2 \<le> ready_results h"
  using assms
  unfolding readInternalTemperatureRaw_def Let_def
  apply (clarsimp simp: bind_eq_Some_conv)
  apply (drule wait_SYNCBUSY_count wait_RESRDY_count)+
  apply simp
  done

lemma readInternalTemperatureRaw_returns_iff:
  "(\<exists>r h'. readInternalTemperatureRaw D Z st h = Some (r, h')) \<longleftrightarrow>
     12 \<le> free_syncs h \<and> 2 \<le> ready_results h"
  using readInternalTemperatureRaw_result[of h D Z st] readInternalTemperatureRaw_needs[of D Z st h]
  by blast

subsection \<open>The averaging register\<close>

lemma averaging_value_valid:
  assumes "uint a \<in> set (averaging_modes Z)"
  shows "\<exists>v. averaging_value D Z a = Some v \<and>
           (uint a, v) \<in> set (zip (averaging_modes Z) (averaging_settings D))"
  using assms
  by (auto simp: averaging_value_def averaging_modes_def averaging_settings_def)

lemma averaging_value_None:
  "uint a \<notin> set (averaging_modes Z) \<Longrightarrow> averaging_value D Z a = None"
  by (simp add: averaging_value_def averaging_modes_def)

lemma app_adc_counts: "12 \<le> free_syncs app_adc \<and> 2 \<le> ready_results app_adc"
  by (simp add: app_adc_def free_syncs_def ready_results_def)

text \<open>
  C6. Let \<open>_averaging\<close> be one of the nine modes, and let the hardware answer
  (\<open>SYNCBUSY\<close> clear at 12 of the reads to come, \<open>RESRDY\<close> set at 2). Then
  \<open>readInternalTemperatureRaw\<close> returns, and \<open>AVGCTRL\<close> is neither saved nor restored:
  on return the register holds the value that the \<open>switch\<close> has for the mode (the
  sample number with its \<open>ADJRES\<close>), in place of its value on entry; that write is
  the only one to \<open>AVGCTRL\<close>; the saved settings do not depend on \<open>AVGCTRL\<close>;
  \<open>oldSampling\<close> and \<open>oldSampleAveraging\<close> both hold \<open>SAMPCTRL\<close>; and the writes after
  the second conversion restore \<open>CTRLB\<close>, \<open>SAMPCTRL\<close> (twice), the gain and the
  reference selection only.
\<close>

theorem read_raw_keeps_averaging:
  assumes "uint (averaging st) \<in> set (averaging_modes Z)"
    and "12 \<le> free_syncs h" and "2 \<le> ready_results h"
  shows "\<exists>r h' v. readInternalTemperatureRaw D Z st h = Some (r, h') \<and>
           averaging_value D Z (averaging st) = Some v \<and>
           (uint (averaging st), v) \<in> set (zip (averaging_modes Z) (averaging_settings D)) \<and>
           AVGCTRL h' = v \<and> (AVGCTRL h \<noteq> v \<longrightarrow> AVGCTRL h' \<noteq> AVGCTRL h) \<and>
           AVGCTRL_writes h h' = [W_AVGCTRL v] \<and>
           save_settings (h\<lparr>AVGCTRL := x\<rparr>) = save_settings h \<and>
           oldSampling (save_settings h) = ucast (SAMPCTRL h) \<and>
           oldSampleAveraging (save_settings h) = ucast (SAMPCTRL h) \<and>
           drop 12 (new_writes h h') =
             [W_CTRLA_ENABLE False, W_CTRLB (CTRLB h), W_SAMPCTRL (SAMPCTRL h), W_SAMPCTRL (SAMPCTRL h),
              W_INPUTCTRL_GAIN (INPUTCTRL_GAIN h), W_REFCTRL_REFSEL (REFCTRL_REFSEL h)]"
proof -
  from readInternalTemperatureRaw_result[OF assms(2,3)]
  obtain r h' where run: "readInternalTemperatureRaw D Z st h = Some (r, h')" by blast
  from averaging_value_valid[OF assms(1)]
  obtain v where v: "averaging_value D Z (averaging st) = Some v"
    "(uint (averaging st), v) \<in> set (zip (averaging_modes Z) (averaging_settings D))" by blast
  from read_raw_effect[OF run] read_raw_AVGCTRL_writes[OF run] v
  have "AVGCTRL h' = v \<and> (AVGCTRL h \<noteq> v \<longrightarrow> AVGCTRL h' \<noteq> AVGCTRL h) \<and>
        AVGCTRL_writes h h' = [W_AVGCTRL v] \<and>
        save_settings (h\<lparr>AVGCTRL := x\<rparr>) = save_settings h \<and>
        oldSampling (save_settings h) = ucast (SAMPCTRL h) \<and>
        oldSampleAveraging (save_settings h) = ucast (SAMPCTRL h) \<and>
        drop 12 (new_writes h h') =
          [W_CTRLA_ENABLE False, W_CTRLB (CTRLB h), W_SAMPCTRL (SAMPCTRL h), W_SAMPCTRL (SAMPCTRL h),
           W_INPUTCTRL_GAIN (INPUTCTRL_GAIN h), W_REFCTRL_REFSEL (REFCTRL_REFSEL h)]"
    by (simp add: save_settings_def)
  with run v show ?thesis by blast
qed

text \<open>
  An instance: the mode of 64 samples on an ADC that the application left with
  \<open>AVGCTRL = 0x13\<close>.
\<close>

theorem read_raw_keeps_averaging_witness:
  "uint (averaging (setAveraging 7 blank_object)) \<in> set (averaging_modes numbered_modes) \<and>
   12 \<le> free_syncs app_adc \<and> 2 \<le> ready_results app_adc \<and>
   readInternalTemperatureRaw samd21_defs numbered_modes (setAveraging 7 blank_object) app_adc =
     Some (2500, app_adc_after [W_AVGCTRL 0x46] 0x46) \<and>
   averaging_value samd21_defs numbered_modes (averaging (setAveraging 7 blank_object)) = Some 0x46 \<and>
   AVGCTRL app_adc = 0x13 \<and> AVGCTRL (app_adc_after [W_AVGCTRL 0x46] 0x46) = 0x46 \<and>
   AVGCTRL (app_adc_after [W_AVGCTRL 0x46] 0x46) \<noteq> AVGCTRL app_adc \<and>
   AVGCTRL_writes app_adc (app_adc_after [W_AVGCTRL 0x46] 0x46) = [W_AVGCTRL 0x46] \<and>
   oldSampling (save_settings app_adc) = 0x05 \<and> oldSampleAveraging (save_settings app_adc) = 0x05"
proof -
  have valid: "uint (averaging (setAveraging 7 blank_object)) \<in> set (averaging_modes numbered_modes)"
    by (simp add: setAveraging_def averaging_modes_def numbered_modes_def)
  from read_raw_keeps_averaging[OF valid app_adc_counts[THEN conjunct1]
      app_adc_counts[THEN conjunct2], of samd21_defs 0]
  have "AVGCTRL (app_adc_after [W_AVGCTRL 0x46] 0x46) = 0x46 \<and>
        AVGCTRL_writes app_adc (app_adc_after [W_AVGCTRL 0x46] 0x46) = [W_AVGCTRL 0x46] \<and>
        oldSampling (save_settings app_adc) = ucast (SAMPCTRL app_adc) \<and>
        oldSampleAveraging (save_settings app_adc) = ucast (SAMPCTRL app_adc)"
    unfolding run_mode_64 averaging_value_64 by auto
  moreover have "AVGCTRL app_adc = 0x13" "SAMPCTRL app_adc = 0x05"
    by (simp_all add: app_adc_def)
  ultimately show ?thesis
    using valid app_adc_counts run_mode_64 averaging_value_64 by simp
qed

text \<open>
  C7. Let the hardware answer, so that \<open>readInternalTemperatureRaw\<close> returns. When
  \<open>_averaging\<close> is none of the nine modes, the read writes nothing to \<open>AVGCTRL\<close> and
  the register keeps its value. For the mode of one sample it writes 0 (no
  accumulation, no shift); for 2, 4 and 8 samples the sample number with \<open>ADJRES\<close>
  1, 2 and 3; for 16 samples and more the sample number with \<open>ADJRES\<close> 4.
\<close>

theorem read_raw_averaging_switch:
  assumes "12 \<le> free_syncs h" and "2 \<le> ready_results h"
    and "distinct (averaging_modes Z)"
  shows "\<exists>r h'. readInternalTemperatureRaw D Z st h = Some (r, h') \<and>
         (uint (averaging st) \<notin> set (averaging_modes Z) \<longrightarrow>
            AVGCTRL_writes h h' = [] \<and> AVGCTRL h' = AVGCTRL h) \<and>
         (uint (averaging st) = TZ_AVERAGING_1 Z \<longrightarrow>
            AVGCTRL_writes h h' = [W_AVGCTRL 0] \<and> AVGCTRL h' = 0) \<and>
         (uint (averaging st) = TZ_AVERAGING_2 Z \<longrightarrow>
            AVGCTRL_writes h h' = [W_AVGCTRL (ADC_AVGCTRL_SAMPLENUM_2 D OR ADC_AVGCTRL_ADJRES D 1)] \<and>
            AVGCTRL h' = ADC_AVGCTRL_SAMPLENUM_2 D OR ADC_AVGCTRL_ADJRES D 1) \<and>
         (uint (averaging st) = TZ_AVERAGING_4 Z \<longrightarrow>
            AVGCTRL_writes h h' = [W_AVGCTRL (ADC_AVGCTRL_SAMPLENUM_4 D OR ADC_AVGCTRL_ADJRES D 2)] \<and>
            AVGCTRL h' = ADC_AVGCTRL_SAMPLENUM_4 D OR ADC_AVGCTRL_ADJRES D 2) \<and>
         (uint (averaging st) = TZ_AVERAGING_8 Z \<longrightarrow>
            AVGCTRL_writes h h' = [W_AVGCTRL (ADC_AVGCTRL_SAMPLENUM_8 D OR ADC_AVGCTRL_ADJRES D 3)] \<and>
            AVGCTRL h' = ADC_AVGCTRL_SAMPLENUM_8 D OR ADC_AVGCTRL_ADJRES D 3) \<and>
         (uint (averaging st) = TZ_AVERAGING_16 Z \<longrightarrow>
            AVGCTRL_writes h h' = [W_AVGCTRL (ADC_AVGCTRL_SAMPLENUM_16 D OR ADC_AVGCTRL_ADJRES D 4)] \<and>
            AVGCTRL h' = ADC_AVGCTRL_SAMPLENUM_16 D OR ADC_AVGCTRL_ADJRES D 4) \<and>
         (uint (averaging st) = TZ_AVERAGING_32 Z \<longrightarrow>
            AVGCTRL_writes h h' = [W_AVGCTRL (ADC_AVGCTRL_SAMPLENUM_32 D OR ADC_AVGCTRL_ADJRES D 4)] \<and>
            AVGCTRL h' = ADC_AVGCTRL_SAMPLENUM_32 D OR ADC_AVGCTRL_ADJRES D 4) \<and>
         (uint (averaging st) = TZ_AVERAGING_64 Z \<longrightarrow>
            AVGCTRL_writes h h' = [W_AVGCTRL (ADC_AVGCTRL_SAMPLENUM_64 D OR ADC_AVGCTRL_ADJRES D 4)] \<and>
            AVGCTRL h' = ADC_AVGCTRL_SAMPLENUM_64 D OR ADC_AVGCTRL_ADJRES D 4) \<and>
         (uint (averaging st) = TZ_AVERAGING_128 Z \<longrightarrow>
            AVGCTRL_writes h h' = [W_AVGCTRL (ADC_AVGCTRL_SAMPLENUM_128 D OR ADC_AVGCTRL_ADJRES D 4)] \<and>
            AVGCTRL h' = ADC_AVGCTRL_SAMPLENUM_128 D OR ADC_AVGCTRL_ADJRES D 4) \<and>
         (uint (averaging st) = TZ_AVERAGING_256 Z \<longrightarrow>
            AVGCTRL_writes h h' = [W_AVGCTRL (ADC_AVGCTRL_SAMPLENUM_256 D OR ADC_AVGCTRL_ADJRES D 4)] \<and>
            AVGCTRL h' = ADC_AVGCTRL_SAMPLENUM_256 D OR ADC_AVGCTRL_ADJRES D 4)"
proof -
  from readInternalTemperatureRaw_result[OF assms(1,2)]
  obtain r h' where run: "readInternalTemperatureRaw D Z st h = Some (r, h')" by blast
  note eff = read_raw_effect[OF run] read_raw_AVGCTRL_writes[OF run]
  have inv: "uint (averaging st) \<notin> set (averaging_modes Z) \<Longrightarrow>
      AVGCTRL_writes h h' = [] \<and> AVGCTRL h' = AVGCTRL h"
    using eff by (simp add: averaging_value_None)
  have val: "averaging_value D Z (averaging st) = Some v \<Longrightarrow>
      AVGCTRL_writes h h' = [W_AVGCTRL v] \<and> AVGCTRL h' = v" for v
    using eff by simp
  show ?thesis
    apply (rule exI[of _ r], rule exI[of _ h'], rule conjI[OF run])
    using assms(3) inv
    apply (auto simp: averaging_modes_def averaging_value_def intro!: val)
    done
qed

text \<open>
  Instances: a value that is no mode, the mode of one sample and the mode of 64
  samples, on the same ADC.
\<close>

theorem read_raw_averaging_switch_witness:
  "12 \<le> free_syncs app_adc \<and> 2 \<le> ready_results app_adc \<and>
   distinct (averaging_modes numbered_modes) \<and>
   readInternalTemperatureRaw samd21_defs numbered_modes (setAveraging 0 blank_object) app_adc =
     Some (2500, app_adc_after [] 0x13) \<and>
   AVGCTRL_writes app_adc (app_adc_after [] 0x13) = [] \<and>
   AVGCTRL (app_adc_after [] 0x13) = AVGCTRL app_adc \<and>
   readInternalTemperatureRaw samd21_defs numbered_modes (setAveraging 1 blank_object) app_adc =
     Some (2500, app_adc_after [W_AVGCTRL 0] 0) \<and>
   AVGCTRL_writes app_adc (app_adc_after [W_AVGCTRL 0] 0) = [W_AVGCTRL 0] \<and>
   AVGCTRL (app_adc_after [W_AVGCTRL 0] 0) = 0 \<and>
   readInternalTemperatureRaw samd21_defs numbered_modes (setAveraging 7 blank_object) app_adc =
     Some (2500, app_adc_after [W_AVGCTRL 0x46] 0x46) \<and>
   AVGCTRL_writes app_adc (app_adc_after [W_AVGCTRL 0x46] 0x46) = [W_AVGCTRL 0x46] \<and>
   AVGCTRL (app_adc_after [W_AVGCTRL 0x46] 0x46) = 0x46"
proof -
  note c = app_adc_counts[THEN conjunct1] app_adc_counts[THEN conjunct2] distinct_numbered_modes
  note modes = averaging_modes_def numbered_modes_def setAveraging_def samd21_defs_def
  from read_raw_averaging_switch[OF c, of samd21_defs "setAveraging 0 blank_object"]
  have "AVGCTRL_writes app_adc (app_adc_after [] 0x13) = [] \<and>
        AVGCTRL (app_adc_after [] 0x13) = AVGCTRL app_adc"
    unfolding run_mode_invalid by (auto simp: modes)
  moreover
  from read_raw_averaging_switch[OF c, of samd21_defs "setAveraging 1 blank_object"]
  have "AVGCTRL_writes app_adc (app_adc_after [W_AVGCTRL 0] 0) = [W_AVGCTRL 0] \<and>
        AVGCTRL (app_adc_after [W_AVGCTRL 0] 0) = 0"
    unfolding run_mode_1 by (auto simp: modes)
  moreover
  from read_raw_averaging_switch[OF c, of samd21_defs "setAveraging 7 blank_object"]
  have "AVGCTRL_writes app_adc (app_adc_after [W_AVGCTRL 0x46] 0x46) = [W_AVGCTRL 0x46] \<and>
        AVGCTRL (app_adc_after [W_AVGCTRL 0x46] 0x46) = 0x46"
    unfolding run_mode_64 by (auto simp: modes)
  ultimately show ?thesis
    using c run_mode_invalid run_mode_1 run_mode_64 by simp
qed

end
